theory Spec2Isabelle
  imports Main "HOL-Library.Word"
begin

section \<open>Go values at the boundary of package respwriter\<close>

text \<open>
  The kinds of \<^verbatim>\<open>reflect.Kind\<close>, in the order the Go library declares them.
  \<^verbatim>\<open>reflect.Ptr\<close> is the library's older name of \<^verbatim>\<open>reflect.Pointer\<close>.
\<close>

datatype kind =
    reflect_Invalid | reflect_Bool
  | reflect_Int | reflect_Int8 | reflect_Int16 | reflect_Int32 | reflect_Int64
  | reflect_Uint | reflect_Uint8 | reflect_Uint16 | reflect_Uint32 | reflect_Uint64
  | reflect_Uintptr | reflect_Float32 | reflect_Float64
  | reflect_Complex64 | reflect_Complex128
  | reflect_Array | reflect_Chan | reflect_Func | reflect_Interface | reflect_Map
  | reflect_Ptr | reflect_Slice | reflect_String | reflect_Struct | reflect_UnsafePointer

text \<open>
  An interface value (\<^verbatim>\<open>any\<close>, \<^verbatim>\<open>context.Context\<close>, \<^verbatim>\<open>dns.ResponseWriter\<close>) is
  either the nil interface, which has no dynamic type, or a dynamic type (of which the
  code reads the kind only) with a dynamic value. The dynamic value \<open>None\<close> is the nil
  pointer, map, channel, slice or function of that type: the typed nil of Go.
\<close>

datatype 'a go_any = NilInterface | Iface kind "'a option"

datatype go_panic = Panic string | NilDereference

text \<open>
  Error values. \<open>Canceled\<close> and \<open>DeadlineExceeded\<close> are the two errors of package
  context; \<open>Errorf prefix e\<close> is \<^verbatim>\<open>fmt.Errorf(prefix + "%w", e)\<close>, which wraps \<open>e\<close>;
  \<open>ExternalError\<close> stands for the errors of the wrapped writer.

  Modelled from the spec: the sentinel \<^verbatim>\<open>ErrInvalidParameter\<close> is declared in a file of
  the package that is not among the sources; the spec calls it a distinguishable
  "invalid parameter" error kind, so it is a constructor of its own.
\<close>

datatype go_error =
    Canceled
  | DeadlineExceeded
  | ErrInvalidParameter
  | Errorf string go_error
  | ExternalError string

text \<open>\<^verbatim>\<open>errors.Is\<close>: the target is the error or is wrapped somewhere inside it.\<close>

fun errors_Is :: "go_error \<Rightarrow> go_error \<Rightarrow> bool" where
  "errors_Is (Errorf p e) target = (Errorf p e = target \<or> errors_Is e target)"
| "errors_Is e target = (e = target)"

type_synonym byte = "8 word"

datatype dns_Msg = Msg nat

datatype net_Addr = IPAddr string

datatype slog_Logger = LoggerAt nat

subsection \<open>isnil.go\<close>

text \<open>
  \<^verbatim>\<open>
  func isNil(i any) bool {
      if i == nil { return true }
      switch reflect.TypeOf(i).Kind() {
      case reflect.Ptr, reflect.Map, reflect.Chan, reflect.Slice, reflect.Func:
          return reflect.ValueOf(i).IsNil()
      }
      return false
  }
  \<close>
\<close>

fun isNil :: "'a go_any \<Rightarrow> bool" where
  "isNil NilInterface = True"
| "isNil (Iface k v) =
     (if k = reflect_Ptr \<or> k = reflect_Map \<or> k = reflect_Chan \<or> k = reflect_Slice
         \<or> k = reflect_Func
      then v = None
      else False)"

subsection \<open>option.go\<close>

record generalOptions =
  withLogger :: "slog_Logger option"

text \<open>
  An \<^verbatim>\<open>Option\<close> is a \<^verbatim>\<open>func(interface{})\<close>; the argument is a pointer to some options
  struct, which the function updates in place. The pointer is modelled by what it points
  to: a \<^verbatim>\<open>*generalOptions\<close>, or a pointer of any other type. A nil \<^verbatim>\<open>Option\<close> is
  \<open>None\<close>.
\<close>

datatype opts_any = GeneralOptionsPtr generalOptions | OtherPtr

type_synonym Option = "(opts_any \<Rightarrow> opts_any) option"

fun applyOpts :: "opts_any \<Rightarrow> Option list \<Rightarrow> opts_any" where
  "applyOpts opts [] = opts"
| "applyOpts opts (None # opt) = applyOpts opts opt"
| "applyOpts opts (Some f # opt) = applyOpts (f opts) opt"

definition generalDefaults :: generalOptions where
  "generalDefaults = \<lparr>withLogger = None\<rparr>"

text \<open>
  \<^verbatim>\<open>getGeneralOpts\<close> hands \<^verbatim>\<open>&opts\<close> to \<^verbatim>\<open>applyOpts\<close> and returns \<^verbatim>\<open>opts\<close>. A Go
  function cannot change the type of the variable it has a pointer to, so the second
  branch is never taken by a Go option; it only makes the function total.
\<close>

definition getGeneralOpts :: "Option list \<Rightarrow> generalOptions" where
  "getGeneralOpts opt =
     (case applyOpts (GeneralOptionsPtr generalDefaults) opt of
        GeneralOptionsPtr opts \<Rightarrow> opts
      | OtherPtr \<Rightarrow> generalDefaults)"

definition WithLogger :: "slog_Logger option \<Rightarrow> Option" where
  "WithLogger l =
     Some (\<lambda>opts. case opts of
                     GeneralOptionsPtr g \<Rightarrow>
                       if \<not> isNil (Iface reflect_Ptr l)
                       then GeneralOptionsPtr (g\<lparr>withLogger := l\<rparr>)
                       else GeneralOptionsPtr g
                   | OtherPtr \<Rightarrow> OtherPtr)"

section \<open>The environment: contexts, the clock, the wrapped writer\<close>

text \<open>
  A context made by \<^verbatim>\<open>context.WithCancel\<close> or \<^verbatim>\<open>context.WithTimeout\<close> from
  \<^verbatim>\<open>context.Background()\<close> is an object on the heap: its deadline, if it has one, and
  the error that ended it, once \<^verbatim>\<open>cancel\<close> has run.
\<close>

datatype ctx_end = ByCancel | ByDeadline

fun end_error :: "ctx_end \<Rightarrow> go_error" where
  "end_error ByCancel = Canceled"
| "end_error ByDeadline = DeadlineExceeded"

record ctx_obj =
  deadline :: "int option"
  ended :: "ctx_end option"

datatype ctx_val = Background | CtxRef nat

text \<open>
  The dynamic method set of a \<^verbatim>\<open>dns.ResponseWriter\<close>: each method acts on the state
  \<open>'ws\<close> of the transport (connections, buffers), which this package never reads.
\<close>

record 'ws ResponseWriter =
  impl_WriteMsg :: "dns_Msg option \<Rightarrow> 'ws \<Rightarrow> go_error option \<times> 'ws"
  impl_Write :: "byte list \<Rightarrow> 'ws \<Rightarrow> (int \<times> go_error option) \<times> 'ws"
  impl_RemoteAddr :: "'ws \<Rightarrow> net_Addr option \<times> 'ws"
  impl_LocalAddr :: "'ws \<Rightarrow> net_Addr option \<times> 'ws"
  impl_TsigStatus :: "'ws \<Rightarrow> go_error option \<times> 'ws"
  impl_TsigTimersOnly :: "bool \<Rightarrow> 'ws \<Rightarrow> 'ws"
  impl_Hijack :: "'ws \<Rightarrow> 'ws"
  impl_Close :: "'ws \<Rightarrow> go_error option \<times> 'ws"

text \<open>The calls that reach a wrapped writer, with their arguments, in order.\<close>

datatype writer_call =
    Call_WriteMsg "dns_Msg option"
  | Call_Write "byte list"
  | Call_RemoteAddr
  | Call_LocalAddr
  | Call_TsigStatus
  | Call_TsigTimersOnly bool
  | Call_Hijack
  | Call_Close

record 'ws world =
  clock :: int
  contexts :: "nat \<Rightarrow> ctx_obj"
  next_ctx :: nat
  transport :: 'ws
  calls :: "writer_call list"

subsection \<open>Package context\<close>

text \<open>
  How a context has ended, if it has: by the end recorded when \<^verbatim>\<open>cancel\<close> ran, or by
  the clock reaching the deadline. The background context never ends.
\<close>

definition ctx_ended :: "ctx_val \<Rightarrow> 'ws world \<Rightarrow> ctx_end option" where
  "ctx_ended c wd =
     (case c of
        Background \<Rightarrow> None
      | CtxRef i \<Rightarrow>
          (case ended (contexts wd i) of
             Some e \<Rightarrow> Some e
           | None \<Rightarrow>
               (case deadline (contexts wd i) of
                  None \<Rightarrow> None
                | Some d \<Rightarrow> if d \<le> clock wd then Some ByDeadline else None)))"

text \<open>\<^verbatim>\<open>ctx.Err()\<close>: nil while the context is live, then the error of its end.\<close>

definition ctx_Err :: "ctx_val \<Rightarrow> 'ws world \<Rightarrow> go_error option" where
  "ctx_Err c wd = map_option end_error (ctx_ended c wd)"

text \<open>\<^verbatim>\<open>ctx.Done()\<close> is closed, so that a receive from it is ready, once the context has ended.\<close>

definition ctx_Done :: "ctx_val \<Rightarrow> 'ws world \<Rightarrow> bool" where
  "ctx_Done c wd = (ctx_ended c wd \<noteq> None)"

text \<open>
  The \<^verbatim>\<open>cancel\<close> function of context \<open>i\<close>: the first end of a context is the one that
  counts, so a context whose deadline has passed keeps \<^verbatim>\<open>DeadlineExceeded\<close>.
\<close>

definition cancel :: "nat \<Rightarrow> 'ws world \<Rightarrow> 'ws world" where
  "cancel i wd =
     wd\<lparr>contexts := (contexts wd)
          (i := (contexts wd i)
             \<lparr>ended := (case ctx_ended (CtxRef i) wd of
                          None \<Rightarrow> Some ByCancel
                        | Some e \<Rightarrow> Some e)\<rparr>)\<rparr>"

text \<open>\<^verbatim>\<open>context.WithCancel(context.Background())\<close>: the context and the index for its \<^verbatim>\<open>cancel\<close>.\<close>

definition WithCancel_Background :: "'ws world \<Rightarrow> ctx_val go_any \<times> nat \<times> 'ws world" where
  "WithCancel_Background wd =
     (Iface reflect_Ptr (Some (CtxRef (next_ctx wd))),
      next_ctx wd,
      wd\<lparr>contexts := (contexts wd)(next_ctx wd := \<lparr>deadline = None, ended = None\<rparr>),
         next_ctx := Suc (next_ctx wd)\<rparr>)"

text \<open>\<^verbatim>\<open>context.WithTimeout(context.Background(), d)\<close>.\<close>

definition WithTimeout_Background ::
  "int \<Rightarrow> 'ws world \<Rightarrow> ctx_val go_any \<times> nat \<times> 'ws world" where
  "WithTimeout_Background d wd =
     (Iface reflect_Ptr (Some (CtxRef (next_ctx wd))),
      next_ctx wd,
      wd\<lparr>contexts := (contexts wd)
           (next_ctx wd := \<lparr>deadline = Some (clock wd + d), ended = None\<rparr>),
         next_ctx := Suc (next_ctx wd)\<rparr>)"

text \<open>\<^verbatim>\<open>context.Background()\<close> is a value of a struct type.\<close>

definition Background_ctx :: "ctx_val go_any" where
  "Background_ctx = Iface reflect_Struct (Some Background)"

text \<open>\<^verbatim>\<open>time.Sleep(d)\<close>.\<close>

definition sleep :: "int \<Rightarrow> 'ws world \<Rightarrow> 'ws world" where
  "sleep d wd = wd\<lparr>clock := clock wd + (if 0 < d then d else 0)\<rparr>"

subsection \<open>Calls through an interface\<close>

text \<open>
  A method call needs a receiver: on the nil interface it panics with a nil dereference.
  The typed nil has no method table in this model, so a call on it is that panic too;
  a writer or a context that \<^verbatim>\<open>NewRespWriter\<close> accepted is never one.
\<close>

definition receiver :: "'a go_any \<Rightarrow> go_panic + 'a" where
  "receiver i = (case i of Iface k (Some v) \<Rightarrow> Inr v | _ \<Rightarrow> Inl NilDereference)"

definition call_Done :: "ctx_val go_any \<Rightarrow> 'ws world \<Rightarrow> go_panic + bool" where
  "call_Done ctx wd = (case receiver ctx of Inl p \<Rightarrow> Inl p | Inr c \<Rightarrow> Inr (ctx_Done c wd))"

definition call_Err :: "ctx_val go_any \<Rightarrow> 'ws world \<Rightarrow> go_panic + go_error option" where
  "call_Err ctx wd = (case receiver ctx of Inl p \<Rightarrow> Inl p | Inr c \<Rightarrow> Inr (ctx_Err c wd))"

text \<open>A call that reaches the writer is recorded, then run on the transport's state.\<close>

definition reach :: "writer_call \<Rightarrow> 'ws \<Rightarrow> 'ws world \<Rightarrow> 'ws world" where
  "reach c s wd = wd\<lparr>transport := s, calls := calls wd @ [c]\<rparr>"

definition call_WriteMsg ::
  "'ws ResponseWriter go_any \<Rightarrow> dns_Msg option \<Rightarrow> 'ws world
     \<Rightarrow> go_panic + (go_error option \<times> 'ws world)" where
  "call_WriteMsg w msg wd =
     (case receiver w of
        Inl p \<Rightarrow> Inl p
      | Inr u \<Rightarrow> (case impl_WriteMsg u msg (transport wd) of
                    (e, s) \<Rightarrow> Inr (e, reach (Call_WriteMsg msg) s wd)))"

definition call_Write ::
  "'ws ResponseWriter go_any \<Rightarrow> byte list \<Rightarrow> 'ws world
     \<Rightarrow> go_panic + ((int \<times> go_error option) \<times> 'ws world)" where
  "call_Write w b wd =
     (case receiver w of
        Inl p \<Rightarrow> Inl p
      | Inr u \<Rightarrow> (case impl_Write u b (transport wd) of
                    (r, s) \<Rightarrow> Inr (r, reach (Call_Write b) s wd)))"

definition call_RemoteAddr ::
  "'ws ResponseWriter go_any \<Rightarrow> 'ws world \<Rightarrow> go_panic + (net_Addr option \<times> 'ws world)" where
  "call_RemoteAddr w wd =
     (case receiver w of
        Inl p \<Rightarrow> Inl p
      | Inr u \<Rightarrow> (case impl_RemoteAddr u (transport wd) of
                    (a, s) \<Rightarrow> Inr (a, reach Call_RemoteAddr s wd)))"

definition call_LocalAddr ::
  "'ws ResponseWriter go_any \<Rightarrow> 'ws world \<Rightarrow> go_panic + (net_Addr option \<times> 'ws world)" where
  "call_LocalAddr w wd =
     (case receiver w of
        Inl p \<Rightarrow> Inl p
      | Inr u \<Rightarrow> (case impl_LocalAddr u (transport wd) of
                    (a, s) \<Rightarrow> Inr (a, reach Call_LocalAddr s wd)))"

definition call_TsigStatus ::
  "'ws ResponseWriter go_any \<Rightarrow> 'ws world \<Rightarrow> go_panic + (go_error option \<times> 'ws world)" where
  "call_TsigStatus w wd =
     (case receiver w of
        Inl p \<Rightarrow> Inl p
      | Inr u \<Rightarrow> (case impl_TsigStatus u (transport wd) of
                    (e, s) \<Rightarrow> Inr (e, reach Call_TsigStatus s wd)))"

definition call_TsigTimersOnly ::
  "'ws ResponseWriter go_any \<Rightarrow> bool \<Rightarrow> 'ws world \<Rightarrow> go_panic + 'ws world" where
  "call_TsigTimersOnly w b wd =
     (case receiver w of
        Inl p \<Rightarrow> Inl p
      | Inr u \<Rightarrow> Inr (reach (Call_TsigTimersOnly b) (impl_TsigTimersOnly u b (transport wd)) wd))"

definition call_Hijack :: "'ws ResponseWriter go_any \<Rightarrow> 'ws world \<Rightarrow> go_panic + 'ws world" where
  "call_Hijack w wd =
     (case receiver w of
        Inl p \<Rightarrow> Inl p
      | Inr u \<Rightarrow> Inr (reach Call_Hijack (impl_Hijack u (transport wd)) wd))"

definition call_Close ::
  "'ws ResponseWriter go_any \<Rightarrow> 'ws world \<Rightarrow> go_panic + (go_error option \<times> 'ws world)" where
  "call_Close w wd =
     (case receiver w of
        Inl p \<Rightarrow> Inl p
      | Inr u \<Rightarrow> (case impl_Close u (transport wd) of
                    (e, s) \<Rightarrow> Inr (e, reach Call_Close s wd)))"

section \<open>respwriter.go\<close>

record 'ws RespWriter =
  underlying :: "'ws ResponseWriter go_any"
  requestCtx :: "ctx_val go_any"
  logger :: "slog_Logger option"

text \<open>
  \<^verbatim>\<open>
  func NewRespWriter(ctx context.Context, w dns.ResponseWriter, opt ...Option) *RespWriter {
      switch {
      case isNil(ctx): panic("nil context")
      case isNil(w):   panic("nil dns.ResponseWriter")
      }
      opts := getGeneralOpts(opt...)
      return &RespWriter{requestCtx: ctx, logger: opts.withLogger, underlying: w}
  }
  \<close>
  A \<^verbatim>\<open>*RespWriter\<close> is \<open>Some\<close> of the struct it points to, or \<open>None\<close>, the nil pointer.
\<close>

definition NewRespWriter ::
  "ctx_val go_any \<Rightarrow> 'ws ResponseWriter go_any \<Rightarrow> Option list
     \<Rightarrow> go_panic + 'ws RespWriter option" where
  "NewRespWriter ctx w opt =
     (if isNil ctx then Inl (Panic ''nil context'')
      else if isNil w then Inl (Panic ''nil dns.ResponseWriter'')
      else (let opts = getGeneralOpts opt
            in Inr (Some \<lparr>underlying = w, requestCtx = ctx, logger = withLogger opts\<rparr>)))"

text \<open>
  \<^verbatim>\<open>
  func (rw *RespWriter) WriteMsg(msg *dns.Msg) error {
      select {
      case <-rw.requestCtx.Done(): return rw.requestCtx.Err()
      default:                     return rw.underlying.WriteMsg(msg)
      }
  }
  \<close>
  Reading a field through a nil \<^verbatim>\<open>rw\<close> panics. The \<^verbatim>\<open>select\<close> takes its first case when
  the receive from \<^verbatim>\<open>Done()\<close> is ready, its default case otherwise.
\<close>

definition WriteMsg ::
  "'ws RespWriter option \<Rightarrow> dns_Msg option \<Rightarrow> 'ws world
     \<Rightarrow> go_panic + (go_error option \<times> 'ws world)" where
  "WriteMsg rw msg wd =
     (case rw of
        None \<Rightarrow> Inl NilDereference
      | Some r \<Rightarrow>
          (case call_Done (requestCtx r) wd of
             Inl p \<Rightarrow> Inl p
           | Inr True \<Rightarrow>
               (case call_Err (requestCtx r) wd of
                  Inl p \<Rightarrow> Inl p
                | Inr e \<Rightarrow> Inr (e, wd))
           | Inr False \<Rightarrow> call_WriteMsg (underlying r) msg wd))"

text \<open>
  \<^verbatim>\<open>
  func (rw *RespWriter) Write([]byte) (int, error) {
      select {
      case <-rw.requestCtx.Done(): return 0, rw.requestCtx.Err()
      default:                     return rw.underlying.Write([]byte{})
      }
  }
  \<close>
  The parameter has no name in the source: the method cannot read its buffer.
\<close>

definition Write ::
  "'ws RespWriter option \<Rightarrow> byte list \<Rightarrow> 'ws world
     \<Rightarrow> go_panic + ((int \<times> go_error option) \<times> 'ws world)" where
  "Write rw b wd =
     (case rw of
        None \<Rightarrow> Inl NilDereference
      | Some r \<Rightarrow>
          (case call_Done (requestCtx r) wd of
             Inl p \<Rightarrow> Inl p
           | Inr True \<Rightarrow>
               (case call_Err (requestCtx r) wd of
                  Inl p \<Rightarrow> Inl p
                | Inr e \<Rightarrow> Inr ((0, e), wd))
           | Inr False \<Rightarrow> call_Write (underlying r) [] wd))"

definition RemoteAddr ::
  "'ws RespWriter option \<Rightarrow> 'ws world \<Rightarrow> go_panic + (net_Addr option \<times> 'ws world)" where
  "RemoteAddr rw wd =
     (case rw of
        None \<Rightarrow> Inl NilDereference
      | Some r \<Rightarrow> call_RemoteAddr (underlying r) wd)"

definition LocalAddr ::
  "'ws RespWriter option \<Rightarrow> 'ws world \<Rightarrow> go_panic + (net_Addr option \<times> 'ws world)" where
  "LocalAddr rw wd =
     (case rw of
        None \<Rightarrow> Inl NilDereference
      | Some r \<Rightarrow> call_LocalAddr (underlying r) wd)"

text \<open>
  \<^verbatim>\<open>
  func (rw *RespWriter) TsigStatus() error {
      select {
      case <-rw.requestCtx.Done(): return rw.requestCtx.Err()
      default:                     return rw.underlying.TsigStatus()
      }
  }
  \<close>
\<close>

definition TsigStatus ::
  "'ws RespWriter option \<Rightarrow> 'ws world \<Rightarrow> go_panic + (go_error option \<times> 'ws world)" where
  "TsigStatus rw wd =
     (case rw of
        None \<Rightarrow> Inl NilDereference
      | Some r \<Rightarrow>
          (case call_Done (requestCtx r) wd of
             Inl p \<Rightarrow> Inl p
           | Inr True \<Rightarrow>
               (case call_Err (requestCtx r) wd of
                  Inl p \<Rightarrow> Inl p
                | Inr e \<Rightarrow> Inr (e, wd))
           | Inr False \<Rightarrow> call_TsigStatus (underlying r) wd))"

definition TsigTimersOnly ::
  "'ws RespWriter option \<Rightarrow> bool \<Rightarrow> 'ws world \<Rightarrow> go_panic + 'ws world" where
  "TsigTimersOnly rw b wd =
     (case rw of
        None \<Rightarrow> Inl NilDereference
      | Some r \<Rightarrow> call_TsigTimersOnly (underlying r) b wd)"

definition Hijack :: "'ws RespWriter option \<Rightarrow> 'ws world \<Rightarrow> go_panic + 'ws world" where
  "Hijack rw wd =
     (case rw of
        None \<Rightarrow> Inl NilDereference
      | Some r \<Rightarrow> call_Hijack (underlying r) wd)"

definition Close ::
  "'ws RespWriter option \<Rightarrow> 'ws world \<Rightarrow> go_panic + (go_error option \<times> 'ws world)" where
  "Close rw wd =
     (case rw of
        None \<Rightarrow> Inl NilDereference
      | Some r \<Rightarrow> call_Close (underlying r) wd)"

definition Underlying :: "'ws RespWriter option \<Rightarrow> go_panic + 'ws ResponseWriter go_any" where
  "Underlying rw = (case rw of None \<Rightarrow> Inl NilDereference | Some r \<Rightarrow> Inr (underlying r))"

definition RequestContext :: "'ws RespWriter option \<Rightarrow> go_panic + ctx_val go_any" where
  "RequestContext rw = (case rw of None \<Rightarrow> Inl NilDereference | Some r \<Rightarrow> Inr (requestCtx r))"

definition Logger :: "'ws RespWriter option \<Rightarrow> go_panic + slog_Logger option" where
  "Logger rw = (case rw of None \<Rightarrow> Inl NilDereference | Some r \<Rightarrow> Inr (logger r))"

text \<open>
  \<^verbatim>\<open>func (rw *RespWriter) SetLogger(logger *slog.Logger) { rw.logger = logger }\<close>
  The one method that assigns to a field of \<^verbatim>\<open>*rw\<close>; it returns the struct as updated.
\<close>

definition SetLogger ::
  "'ws RespWriter option \<Rightarrow> slog_Logger option \<Rightarrow> go_panic + 'ws RespWriter" where
  "SetLogger rw l =
     (case rw of None \<Rightarrow> Inl NilDereference | Some r \<Rightarrow> Inr (r\<lparr>logger := l\<rparr>))"

text \<open>
  The handlers. Both are \<^verbatim>\<open>dns.HandlerFunc\<close> in Go,
  \<^verbatim>\<open>func(w dns.ResponseWriter, r *dns.Msg)\<close>; the model tells the handler that is
  wrapped, which is called with a \<^verbatim>\<open>*RespWriter\<close> in the interface, from the handler
  that is returned, which the server calls with its own writer. A handler runs on the
  world and may end in a panic. A nil function is \<open>None\<close>, and calling it panics.
\<close>

type_synonym 'ws wrapped_handler =
  "'ws RespWriter go_any \<Rightarrow> dns_Msg option \<Rightarrow> 'ws world \<Rightarrow> go_panic option \<times> 'ws world"

type_synonym 'ws HandlerFunc =
  "'ws ResponseWriter go_any \<Rightarrow> dns_Msg option \<Rightarrow> 'ws world \<Rightarrow> go_panic option \<times> 'ws world"

text \<open>
  The function literal that \<^verbatim>\<open>NewHandlerFunc\<close> returns:
  \<^verbatim>\<open>
  func(w dns.ResponseWriter, r *dns.Msg) {
      ctx, cancel := context.WithTimeout(context.Background(), requestTimeout)
      defer cancel()
      wrappedWriter := NewRespWriter(ctx, w, opt...)
      h(wrappedWriter, r)
  }
  \<close>
  The deferred \<^verbatim>\<open>cancel\<close> runs when the function returns and when it panics.
\<close>

definition NewHandlerFunc_closure ::
  "int \<Rightarrow> 'ws wrapped_handler option \<Rightarrow> Option list \<Rightarrow> 'ws HandlerFunc" where
  "NewHandlerFunc_closure requestTimeout h opt w r wd =
     (case WithTimeout_Background requestTimeout wd of
        (ctx, i, wd1) \<Rightarrow>
          (case NewRespWriter ctx w opt of
             Inl p \<Rightarrow> (Some p, cancel i wd1)
           | Inr wrappedWriter \<Rightarrow>
               (case h of
                  None \<Rightarrow> (Some NilDereference, cancel i wd1)
                | Some hf \<Rightarrow>
                    (case hf (Iface reflect_Ptr wrappedWriter) r wd1 of
                       (p, wd2) \<Rightarrow> (p, cancel i wd2)))))"

definition op_name :: string where
  "op_name = ''handlers.NewRespWriterHandler''"

text \<open>
  \<^verbatim>\<open>
  func NewHandlerFunc(requestTimeout time.Duration, h dns.HandlerFunc, opt ...Option) (dns.HandlerFunc, error) {
      const op = "handlers.NewRespWriterHandler"
      switch {
      case requestTimeout <= 0:
          return nil, fmt.Errorf("%s: invalid request timeout: %w", op, ErrInvalidParameter)
      case isNil(h):
          return nil, fmt.Errorf("%s: nil handler: %w", op, ErrInvalidParameter)
      }
      return func(w dns.ResponseWriter, r *dns.Msg) { ... }, nil
  }
  \<close>
  The result is the pair that Go returns. A \<^verbatim>\<open>dns.HandlerFunc\<close> passed as \<^verbatim>\<open>any\<close> has a
  dynamic type of kind \<^verbatim>\<open>Func\<close>, nil function or not.
\<close>

definition NewHandlerFunc ::
  "int \<Rightarrow> 'ws wrapped_handler option \<Rightarrow> Option list
     \<Rightarrow> 'ws HandlerFunc option \<times> go_error option" where
  "NewHandlerFunc requestTimeout h opt =
     (if requestTimeout \<le> 0
      then (None, Some (Errorf (op_name @ '': invalid request timeout: '') ErrInvalidParameter))
      else if isNil (Iface reflect_Func h)
      then (None, Some (Errorf (op_name @ '': nil handler: '') ErrInvalidParameter))
      else (Some (NewHandlerFunc_closure requestTimeout h opt), None))"

subsection \<open>The methods of a RespWriter as one step function\<close>

datatype rw_op =
    Op_WriteMsg "dns_Msg option"
  | Op_Write "byte list"
  | Op_RemoteAddr
  | Op_LocalAddr
  | Op_TsigStatus
  | Op_TsigTimersOnly bool
  | Op_Hijack
  | Op_Close
  | Op_Underlying
  | Op_RequestContext
  | Op_Logger
  | Op_SetLogger "slog_Logger option"

datatype 'ws rw_result =
    Res_error "go_error option"
  | Res_count int "go_error option"
  | Res_addr "net_Addr option"
  | Res_none
  | Res_writer "'ws ResponseWriter go_any"
  | Res_ctx "ctx_val go_any"
  | Res_logger "slog_Logger option"

text \<open>
  One method call on \<^verbatim>\<open>&r\<close>: what it returns, the struct after the call, the world
  after the call. Only \<^verbatim>\<open>SetLogger\<close> assigns to the struct.
\<close>

fun method_call ::
  "rw_op \<Rightarrow> 'ws RespWriter \<Rightarrow> 'ws world
     \<Rightarrow> go_panic + ('ws rw_result \<times> 'ws RespWriter \<times> 'ws world)" where
  "method_call (Op_WriteMsg msg) r wd =
     (case WriteMsg (Some r) msg wd of
        Inl p \<Rightarrow> Inl p | Inr (e, wd') \<Rightarrow> Inr (Res_error e, r, wd'))"
| "method_call (Op_Write b) r wd =
     (case Write (Some r) b wd of
        Inl p \<Rightarrow> Inl p | Inr ((n, e), wd') \<Rightarrow> Inr (Res_count n e, r, wd'))"
| "method_call Op_RemoteAddr r wd =
     (case RemoteAddr (Some r) wd of
        Inl p \<Rightarrow> Inl p | Inr (a, wd') \<Rightarrow> Inr (Res_addr a, r, wd'))"
| "method_call Op_LocalAddr r wd =
     (case LocalAddr (Some r) wd of
        Inl p \<Rightarrow> Inl p | Inr (a, wd') \<Rightarrow> Inr (Res_addr a, r, wd'))"
| "method_call Op_TsigStatus r wd =
     (case TsigStatus (Some r) wd of
        Inl p \<Rightarrow> Inl p | Inr (e, wd') \<Rightarrow> Inr (Res_error e, r, wd'))"
| "method_call (Op_TsigTimersOnly b) r wd =
     (case TsigTimersOnly (Some r) b wd of
        Inl p \<Rightarrow> Inl p | Inr wd' \<Rightarrow> Inr (Res_none, r, wd'))"
| "method_call Op_Hijack r wd =
     (case Hijack (Some r) wd of
        Inl p \<Rightarrow> Inl p | Inr wd' \<Rightarrow> Inr (Res_none, r, wd'))"
| "method_call Op_Close r wd =
     (case Close (Some r) wd of
        Inl p \<Rightarrow> Inl p | Inr (e, wd') \<Rightarrow> Inr (Res_error e, r, wd'))"
| "method_call Op_Underlying r wd =
     (case Underlying (Some r) of
        Inl p \<Rightarrow> Inl p | Inr w \<Rightarrow> Inr (Res_writer w, r, wd))"
| "method_call Op_RequestContext r wd =
     (case RequestContext (Some r) of
        Inl p \<Rightarrow> Inl p | Inr c \<Rightarrow> Inr (Res_ctx c, r, wd))"
| "method_call Op_Logger r wd =
     (case Logger (Some r) of
        Inl p \<Rightarrow> Inl p | Inr l \<Rightarrow> Inr (Res_logger l, r, wd))"
| "method_call (Op_SetLogger l) r wd =
     (case SetLogger (Some r) l of
        Inl p \<Rightarrow> Inl p | Inr r' \<Rightarrow> Inr (Res_none, r', wd))"

text \<open>A handler's use of its writer: method calls one after the other, until one panics.\<close>

fun method_calls ::
  "rw_op list \<Rightarrow> 'ws RespWriter \<Rightarrow> 'ws world
     \<Rightarrow> go_panic + ('ws rw_result list \<times> 'ws RespWriter \<times> 'ws world)" where
  "method_calls [] r wd = Inr ([], r, wd)"
| "method_calls (x # xs) r wd =
     (case method_call x r wd of
        Inl p \<Rightarrow> Inl p
      | Inr (res, r', wd') \<Rightarrow>
          (case method_calls xs r' wd' of
             Inl p \<Rightarrow> Inl p
           | Inr (rs, r'', wd'') \<Rightarrow> Inr (res # rs, r'', wd'')))"

text \<open>The argument of the last \<^verbatim>\<open>SetLogger\<close> among the calls, or \<open>l\<close> when there is none.\<close>

fun last_SetLogger :: "rw_op list \<Rightarrow> slog_Logger option \<Rightarrow> slog_Logger option" where
  "last_SetLogger [] l = l"
| "last_SetLogger (Op_SetLogger l' # xs) l = last_SetLogger xs l'"
| "last_SetLogger (x # xs) l = last_SetLogger xs l"

section \<open>Writers, handlers and worlds to run the code on\<close>

text \<open>
  The writer of the package's tests:
  \<^verbatim>\<open>
  func (w *mockDNSResponseWriter) WriteMsg(msg *dns.Msg) error { return nil }
  func (w *mockDNSResponseWriter) Write(b []byte) (int, error) { return 0, nil }
  func (w *mockDNSResponseWriter) RemoteAddr() net.Addr { return &net.IPAddr{IP: net.IPv4(127, 0, 0, 1)} }
  func (w *mockDNSResponseWriter) LocalAddr() net.Addr { return &net.IPAddr{IP: net.IPv4(127, 0, 0, 1)} }
  func (w *mockDNSResponseWriter) TsigStatus() error { return nil }
  func (w *mockDNSResponseWriter) TsigTimersOnly(b bool) {}
  func (w *mockDNSResponseWriter) Hijack() {}
  func (w *mockDNSResponseWriter) Close() error { return nil }
  \<close>
\<close>

definition mockDNSResponseWriter :: "'ws ResponseWriter" where
  "mockDNSResponseWriter =
     \<lparr>impl_WriteMsg = (\<lambda>msg s. (None, s)),
      impl_Write = (\<lambda>b s. ((0, None), s)),
      impl_RemoteAddr = (\<lambda>s. (Some (IPAddr ''127.0.0.1''), s)),
      impl_LocalAddr = (\<lambda>s. (Some (IPAddr ''127.0.0.1''), s)),
      impl_TsigStatus = (\<lambda>s. (None, s)),
      impl_TsigTimersOnly = (\<lambda>b s. s),
      impl_Hijack = (\<lambda>s. s),
      impl_Close = (\<lambda>s. (None, s))\<rparr>"

text \<open>
  A writer on a connection: the state of the transport is the bytes sent so far, and
  \<^verbatim>\<open>Write\<close> sends its buffer and returns the number of bytes of it.
\<close>

definition connWriter :: "(byte list) ResponseWriter" where
  "connWriter =
     \<lparr>impl_WriteMsg = (\<lambda>msg s. (None, s)),
      impl_Write = (\<lambda>b s. ((int (length b), None), s @ b)),
      impl_RemoteAddr = (\<lambda>s. (Some (IPAddr ''127.0.0.1''), s)),
      impl_LocalAddr = (\<lambda>s. (Some (IPAddr ''127.0.0.1''), s)),
      impl_TsigStatus = (\<lambda>s. (None, s)),
      impl_TsigTimersOnly = (\<lambda>b s. s),
      impl_Hijack = (\<lambda>s. s),
      impl_Close = (\<lambda>s. (None, s))\<rparr>"

text \<open>A world at time 0 in which no context has been made and no writer called.\<close>

definition world0 :: "'ws \<Rightarrow> 'ws world" where
  "world0 s =
     \<lparr>clock = 0, contexts = (\<lambda>i. \<lparr>deadline = None, ended = None\<rparr>), next_ctx = 0,
      transport = s, calls = []\<rparr>"

text \<open>
  A handler as in the package's tests: it sleeps for \<open>d\<close>, then writes a reply, and drops
  the error of the write.
\<close>

definition sleepy_handler :: "int \<Rightarrow> 'ws wrapped_handler" where
  "sleepy_handler d w r wd =
     (case w of
        Iface k rw \<Rightarrow>
          (case WriteMsg rw r (sleep d wd) of
             Inl p \<Rightarrow> (Some p, sleep d wd)
           | Inr (e, wd') \<Rightarrow> (None, wd'))
      | NilInterface \<Rightarrow> (Some NilDereference, sleep d wd))"

text \<open>
  The options a caller can build with this package: a nil \<^verbatim>\<open>Option\<close>, or
  \<^verbatim>\<open>WithLogger(l)\<close> for a logger \<open>l\<close> that may be nil.
\<close>

definition logger_option :: "slog_Logger option option \<Rightarrow> Option" where
  "logger_option x = (case x of None \<Rightarrow> None | Some l \<Rightarrow> WithLogger l)"

text \<open>The last logger that is not nil among such options, or \<open>l\<close> when there is none.\<close>

fun last_logger ::
  "slog_Logger option option list \<Rightarrow> slog_Logger option \<Rightarrow> slog_Logger option" where
  "last_logger [] l = l"
| "last_logger (None # xs) l = last_logger xs l"
| "last_logger (Some None # xs) l = last_logger xs l"
| "last_logger (Some (Some l') # xs) l = last_logger xs (Some l')"

text \<open>
  A writer around the tests' mock and the first context made in a world, and three
  worlds with that context: cancelled, past its deadline of 100, and live at time 50.
\<close>

definition rw0 :: "unit RespWriter" where
  "rw0 = \<lparr>underlying = Iface reflect_Ptr (Some mockDNSResponseWriter),
           requestCtx = Iface reflect_Ptr (Some (CtxRef 0)), logger = None\<rparr>"

definition wd_cancelled :: "unit world" where
  "wd_cancelled = cancel 0 (snd (snd (WithCancel_Background (world0 ()))))"

definition wd_timed_out :: "unit world" where
  "wd_timed_out = sleep 200 (snd (snd (WithTimeout_Background 100 (world0 ()))))"

definition wd_live :: "unit world" where
  "wd_live = sleep 50 (snd (snd (WithTimeout_Background 100 (world0 ()))))"

text \<open>
  The same writer as an interface value; a writer made on the background context, with a
  logger; a writer around \<open>connWriter\<close>; and a run of method calls.
\<close>

definition mock_iface :: "unit ResponseWriter go_any" where
  "mock_iface = Iface reflect_Ptr (Some mockDNSResponseWriter)"

definition rw_bg :: "unit RespWriter" where
  "rw_bg = \<lparr>underlying = Iface reflect_Ptr (Some mockDNSResponseWriter),
            requestCtx = Background_ctx, logger = Some (LoggerAt 1)\<rparr>"

definition rw_conn :: "(byte list) RespWriter" where
  "rw_conn = \<lparr>underlying = Iface reflect_Ptr (Some connWriter),
              requestCtx = Background_ctx, logger = None\<rparr>"

definition ops0 :: "rw_op list" where
  "ops0 = [Op_WriteMsg (Some (Msg 1)), Op_SetLogger (Some (LoggerAt 2)), Op_Close,
           Op_SetLogger (Some (LoggerAt 3)), Op_Hijack]"

section \<open>Properties\<close>

subsection \<open>Calls on a receiver that is there\<close>

lemma receiver_Some: "receiver (Iface k (Some v)) = Inr v"
  by (simp add: receiver_def)

lemma call_Done_Some: "call_Done (Iface k (Some c)) wd = Inr (ctx_Done c wd)"
  by (simp add: call_Done_def receiver_def)

lemma call_Err_Some: "call_Err (Iface k (Some c)) wd = Inr (ctx_Err c wd)"
  by (simp add: call_Err_def receiver_def)

lemma ended_cancelled: "ctx_ended (CtxRef 0) wd_cancelled = Some ByCancel"
  by (simp add: wd_cancelled_def cancel_def WithCancel_Background_def world0_def ctx_ended_def)

lemma ended_timed_out: "ctx_ended (CtxRef 0) wd_timed_out = Some ByDeadline"
  by (simp add: wd_timed_out_def sleep_def WithTimeout_Background_def world0_def ctx_ended_def)

lemma ended_live: "ctx_ended (CtxRef 0) wd_live = None"
  by (simp add: wd_live_def sleep_def WithTimeout_Background_def world0_def ctx_ended_def)

lemma calls_cancelled: "calls wd_cancelled = []"
  by (simp add: wd_cancelled_def cancel_def WithCancel_Background_def world0_def)

lemma calls_timed_out: "calls wd_timed_out = []"
  by (simp add: wd_timed_out_def sleep_def WithTimeout_Background_def world0_def)

lemma calls_live: "calls wd_live = []"
  by (simp add: wd_live_def sleep_def WithTimeout_Background_def world0_def)

subsection \<open>The gated operations\<close>

text \<open>
  C1. When the request context of a RespWriter has ended at the time of the call,
  \<^verbatim>\<open>WriteMsg\<close>, \<^verbatim>\<open>Write\<close> and \<^verbatim>\<open>TsigStatus\<close> return the error of that end, which is
  \<^verbatim>\<open>context.Canceled\<close> after a cancellation and \<^verbatim>\<open>context.DeadlineExceeded\<close> after the
  deadline, and \<^verbatim>\<open>Write\<close> returns the count 0. The world they return is the world they
  were called in: no call has reached the wrapped writer, whatever that writer is.
\<close>

theorem gated_operations_return_context_error:
  assumes "requestCtx r = Iface k (Some c)" and "ctx_ended c wd = Some cause"
  shows "WriteMsg (Some r) msg wd = Inr (Some (end_error cause), wd)
       \<and> Write (Some r) b wd = Inr ((0, Some (end_error cause)), wd)
       \<and> TsigStatus (Some r) wd = Inr (Some (end_error cause), wd)
       \<and> ctx_Err c wd = Some (end_error cause)
       \<and> end_error cause
           = (case cause of ByCancel \<Rightarrow> Canceled | ByDeadline \<Rightarrow> DeadlineExceeded)"
proof -
  from assms(2) have is_done: "ctx_Done c wd" and err: "ctx_Err c wd = Some (end_error cause)"
    by (simp_all add: ctx_Done_def ctx_Err_def)
  have "WriteMsg (Some r) msg wd = Inr (Some (end_error cause), wd)"
    using assms(1) is_done err by (simp add: WriteMsg_def call_Done_Some call_Err_Some)
  moreover have "Write (Some r) b wd = Inr ((0, Some (end_error cause)), wd)"
    using assms(1) is_done err by (simp add: Write_def call_Done_Some call_Err_Some)
  moreover have "TsigStatus (Some r) wd = Inr (Some (end_error cause), wd)"
    using assms(1) is_done err by (simp add: TsigStatus_def call_Done_Some call_Err_Some)
  moreover have "end_error cause
      = (case cause of ByCancel \<Rightarrow> Canceled | ByDeadline \<Rightarrow> DeadlineExceeded)"
    by (cases cause) simp_all
  ultimately show ?thesis using err by simp
qed

theorem gated_operations_return_context_error_witness:
  "requestCtx rw0 = Iface reflect_Ptr (Some (CtxRef 0))
   \<and> ctx_ended (CtxRef 0) wd_cancelled = Some ByCancel
   \<and> WriteMsg (Some rw0) (Some (Msg 1)) wd_cancelled = Inr (Some Canceled, wd_cancelled)
   \<and> TsigStatus (Some rw0) wd_cancelled = Inr (Some Canceled, wd_cancelled)
   \<and> calls wd_cancelled = []
   \<and> ctx_ended (CtxRef 0) wd_timed_out = Some ByDeadline
   \<and> Write (Some rw0) [] wd_timed_out = Inr ((0, Some DeadlineExceeded), wd_timed_out)
   \<and> calls wd_timed_out = []"
proof -
  have ctx: "requestCtx rw0 = Iface reflect_Ptr (Some (CtxRef 0))"
    by (simp add: rw0_def)
  from gated_operations_return_context_error [OF ctx ended_cancelled, of "Some (Msg 1)" "[]"]
    gated_operations_return_context_error [OF ctx ended_timed_out, of "Some (Msg 1)" "[]"]
  show ?thesis
    using ctx ended_cancelled ended_timed_out calls_cancelled calls_timed_out by simp
qed

text \<open>
  C6. While the request context of a RespWriter is live, \<^verbatim>\<open>WriteMsg(m)\<close> is the call
  \<^verbatim>\<open>WriteMsg(m)\<close> on the wrapped writer, with the same message, and returns what that
  call returns; \<^verbatim>\<open>TsigStatus()\<close> is the call \<^verbatim>\<open>TsigStatus()\<close> on the wrapped writer and
  returns what it returns. With a writer whose \<^verbatim>\<open>WriteMsg\<close> never fails, \<^verbatim>\<open>WriteMsg\<close>
  returns no error.
\<close>

theorem live_context_delegates_WriteMsg_and_TsigStatus:
  assumes "requestCtx r = Iface k (Some c)" and "ctx_ended c wd = None"
    and "underlying r = Iface k' (Some u)"
  shows "WriteMsg (Some r) msg wd
           = Inr (fst (impl_WriteMsg u msg (transport wd)),
                  reach (Call_WriteMsg msg) (snd (impl_WriteMsg u msg (transport wd))) wd)
       \<and> TsigStatus (Some r) wd
           = Inr (fst (impl_TsigStatus u (transport wd)),
                  reach Call_TsigStatus (snd (impl_TsigStatus u (transport wd))) wd)
       \<and> ((\<forall>m s. fst (impl_WriteMsg u m s) = None)
            \<longrightarrow> (\<exists>wd'. WriteMsg (Some r) msg wd = Inr (None, wd')))"
proof -
  from assms(2) have live: "\<not> ctx_Done c wd"
    by (simp add: ctx_Done_def)
  have w: "WriteMsg (Some r) msg wd
           = Inr (fst (impl_WriteMsg u msg (transport wd)),
                  reach (Call_WriteMsg msg) (snd (impl_WriteMsg u msg (transport wd))) wd)"
    using assms(1,3) live
    by (simp add: WriteMsg_def call_Done_Some call_WriteMsg_def receiver_Some split: prod.split)
  have t: "TsigStatus (Some r) wd
           = Inr (fst (impl_TsigStatus u (transport wd)),
                  reach Call_TsigStatus (snd (impl_TsigStatus u (transport wd))) wd)"
    using assms(1,3) live
    by (simp add: TsigStatus_def call_Done_Some call_TsigStatus_def receiver_Some
        split: prod.split)
  from w t show ?thesis by simp
qed

theorem live_context_delegates_WriteMsg_and_TsigStatus_witness:
  "requestCtx rw0 = Iface reflect_Ptr (Some (CtxRef 0))
   \<and> ctx_ended (CtxRef 0) wd_live = None
   \<and> underlying rw0 = Iface reflect_Ptr (Some mockDNSResponseWriter)
   \<and> WriteMsg (Some rw0) (Some (Msg 1)) wd_live
       = Inr (None, wd_live\<lparr>calls := [Call_WriteMsg (Some (Msg 1))]\<rparr>)
   \<and> TsigStatus (Some rw0) wd_live = Inr (None, wd_live\<lparr>calls := [Call_TsigStatus]\<rparr>)"
proof -
  have ctx: "requestCtx rw0 = Iface reflect_Ptr (Some (CtxRef 0))"
    and und: "underlying rw0 = Iface reflect_Ptr (Some mockDNSResponseWriter)"
    by (simp_all add: rw0_def)
  from live_context_delegates_WriteMsg_and_TsigStatus [OF ctx ended_live und, of "Some (Msg 1)"]
  show ?thesis
    using ctx und ended_live calls_live by (simp add: mockDNSResponseWriter_def reach_def)
qed

subsection \<open>The operations that are not gated\<close>

text \<open>
  C5. \<^verbatim>\<open>RemoteAddr\<close>, \<^verbatim>\<open>LocalAddr\<close>, \<^verbatim>\<open>TsigTimersOnly\<close>, \<^verbatim>\<open>Hijack\<close> and \<^verbatim>\<open>Close\<close> are
  the same call on the wrapped writer and return what it returns, in every world and for
  every request context: the context is not read, so it may be live or ended.
\<close>

theorem ungated_operations_delegate:
  assumes "underlying r = Iface k (Some u)"
  shows "RemoteAddr (Some r) wd
           = Inr (fst (impl_RemoteAddr u (transport wd)),
                  reach Call_RemoteAddr (snd (impl_RemoteAddr u (transport wd))) wd)
       \<and> LocalAddr (Some r) wd
           = Inr (fst (impl_LocalAddr u (transport wd)),
                  reach Call_LocalAddr (snd (impl_LocalAddr u (transport wd))) wd)
       \<and> TsigTimersOnly (Some r) b wd
           = Inr (reach (Call_TsigTimersOnly b) (impl_TsigTimersOnly u b (transport wd)) wd)
       \<and> Hijack (Some r) wd = Inr (reach Call_Hijack (impl_Hijack u (transport wd)) wd)
       \<and> Close (Some r) wd
           = Inr (fst (impl_Close u (transport wd)),
                  reach Call_Close (snd (impl_Close u (transport wd))) wd)"
proof -
  have "RemoteAddr (Some r) wd
           = Inr (fst (impl_RemoteAddr u (transport wd)),
                  reach Call_RemoteAddr (snd (impl_RemoteAddr u (transport wd))) wd)"
    using assms by (simp add: RemoteAddr_def call_RemoteAddr_def receiver_Some split: prod.split)
  moreover have "LocalAddr (Some r) wd
           = Inr (fst (impl_LocalAddr u (transport wd)),
                  reach Call_LocalAddr (snd (impl_LocalAddr u (transport wd))) wd)"
    using assms by (simp add: LocalAddr_def call_LocalAddr_def receiver_Some split: prod.split)
  moreover have "TsigTimersOnly (Some r) b wd
           = Inr (reach (Call_TsigTimersOnly b) (impl_TsigTimersOnly u b (transport wd)) wd)"
    using assms by (simp add: TsigTimersOnly_def call_TsigTimersOnly_def receiver_Some)
  moreover have "Hijack (Some r) wd = Inr (reach Call_Hijack (impl_Hijack u (transport wd)) wd)"
    using assms by (simp add: Hijack_def call_Hijack_def receiver_Some)
  moreover have "Close (Some r) wd
           = Inr (fst (impl_Close u (transport wd)),
                  reach Call_Close (snd (impl_Close u (transport wd))) wd)"
    using assms by (simp add: Close_def call_Close_def receiver_Some split: prod.split)
  ultimately show ?thesis by simp
qed

theorem ungated_operations_delegate_witness:
  "underlying rw0 = Iface reflect_Ptr (Some mockDNSResponseWriter)
   \<and> ctx_ended (CtxRef 0) wd_cancelled = Some ByCancel
   \<and> RemoteAddr (Some rw0) wd_cancelled
       = Inr (Some (IPAddr ''127.0.0.1''), wd_cancelled\<lparr>calls := [Call_RemoteAddr]\<rparr>)
   \<and> LocalAddr (Some rw0) wd_cancelled
       = Inr (Some (IPAddr ''127.0.0.1''), wd_cancelled\<lparr>calls := [Call_LocalAddr]\<rparr>)
   \<and> TsigTimersOnly (Some rw0) True wd_cancelled
       = Inr (wd_cancelled\<lparr>calls := [Call_TsigTimersOnly True]\<rparr>)
   \<and> Hijack (Some rw0) wd_cancelled = Inr (wd_cancelled\<lparr>calls := [Call_Hijack]\<rparr>)
   \<and> Close (Some rw0) wd_cancelled = Inr (None, wd_cancelled\<lparr>calls := [Call_Close]\<rparr>)"
proof -
  have und: "underlying rw0 = Iface reflect_Ptr (Some mockDNSResponseWriter)"
    by (simp add: rw0_def)
  from ungated_operations_delegate [OF und, of wd_cancelled True]
  show ?thesis
    using und ended_cancelled calls_cancelled by (simp add: mockDNSResponseWriter_def reach_def)
qed

subsection \<open>Options\<close>

lemma applyOpts_append: "applyOpts opts (xs @ ys) = applyOpts (applyOpts opts xs) ys"
proof (induction xs arbitrary: opts)
  case Nil
  show ?case by simp
next
  case (Cons x xs)
  then show ?case by (cases x) simp_all
qed

lemma applyOpts_fold:
  "applyOpts opts opt = fold (\<lambda>x acc. case x of None \<Rightarrow> acc | Some f \<Rightarrow> f acc) opt opts"
proof (induction opt arbitrary: opts)
  case Nil
  show ?case by simp
next
  case (Cons x xs)
  then show ?case by (cases x) simp_all
qed

lemma applyOpts_loggers:
  "applyOpts (GeneralOptionsPtr g) (map logger_option xs)
     = GeneralOptionsPtr (g\<lparr>withLogger := last_logger xs (withLogger g)\<rparr>)"
proof (induction xs "withLogger g" arbitrary: g rule: last_logger.induct)
  case 1
  then show ?case by simp
next
  case (2 xs)
  then show ?case by (simp add: logger_option_def)
next
  case (3 xs)
  then show ?case by (simp add: logger_option_def WithLogger_def)
next
  case (4 l' xs)
  from 4(1)[of "g\<lparr>withLogger := Some l'\<rparr>"] show ?case
    by (simp add: logger_option_def WithLogger_def)
qed

text \<open>
  C8. \<^verbatim>\<open>applyOpts\<close> runs the options from first to last on the configuration and skips
  the nil ones: it is the left-to-right fold of the options that are not nil, and a nil
  option anywhere in the list can be dropped. For the options of this package, the
  logger of the configuration is the last logger that is not nil: \<^verbatim>\<open>WithLogger(nil)\<close>
  changes nothing and keeps a logger set before it, and of \<^verbatim>\<open>WithLogger(a)\<close> then
  \<^verbatim>\<open>WithLogger(b)\<close> the logger is \<open>b\<close>.
\<close>

theorem options_apply_in_order_later_wins:
  "applyOpts opts opt
     = fold (\<lambda>x acc. case x of None \<Rightarrow> acc | Some f \<Rightarrow> f acc) opt opts
   \<and> applyOpts opts (xs @ None # ys) = applyOpts opts (xs @ ys)
   \<and> withLogger (getGeneralOpts (map logger_option ls)) = last_logger ls None
   \<and> applyOpts (GeneralOptionsPtr g) [WithLogger None] = GeneralOptionsPtr g
   \<and> withLogger (getGeneralOpts [WithLogger (Some a), WithLogger None]) = Some a
   \<and> withLogger (getGeneralOpts [WithLogger (Some a), WithLogger (Some b)]) = Some b"
proof -
  have in_order: "applyOpts opts opt
      = fold (\<lambda>x acc. case x of None \<Rightarrow> acc | Some f \<Rightarrow> f acc) opt opts"
    by (rule applyOpts_fold)
  have skip: "applyOpts opts (xs @ None # ys) = applyOpts opts (xs @ ys)"
    by (simp add: applyOpts_append)
  have last: "withLogger (getGeneralOpts (map logger_option ls)) = last_logger ls None"
    by (simp add: getGeneralOpts_def applyOpts_loggers generalDefaults_def)
  have noop: "applyOpts (GeneralOptionsPtr g) [WithLogger None] = GeneralOptionsPtr g"
    by (simp add: WithLogger_def)
  have keep: "withLogger (getGeneralOpts [WithLogger (Some a), WithLogger None]) = Some a"
    by (simp add: getGeneralOpts_def WithLogger_def generalDefaults_def)
  have over: "withLogger (getGeneralOpts [WithLogger (Some a), WithLogger (Some b)]) = Some b"
    by (simp add: getGeneralOpts_def WithLogger_def generalDefaults_def)
  from in_order skip last noop keep over show ?thesis by blast
qed

text \<open>
  C2. The claim is that \<^verbatim>\<open>Write(b)\<close>, on a live context, passes the caller's buffer \<open>b\<close>
  to \<^verbatim>\<open>Write\<close> of the wrapped writer. The source passes \<^verbatim>\<open>[]byte{}\<close>: with a writer
  on a connection, \<^verbatim>\<open>Write\<close> of three bytes reaches the wrapped writer as a write of no
  bytes and returns the count 0, where the wrapped writer called with the buffer sends
  the three bytes and returns 3.
\<close>

theorem Write_drops_the_buffer:
  "NewRespWriter Background_ctx (Iface reflect_Ptr (Some connWriter)) [] = Inr (Some rw_conn)
   \<and> Write (Some rw_conn) [1, 2, 3] (world0 [])
       = Inr ((0, None), (world0 [])\<lparr>calls := [Call_Write []]\<rparr>)
   \<and> call_Write (underlying rw_conn) [1, 2, 3] (world0 [])
       = Inr ((3, None), (world0 [])\<lparr>transport := [1, 2, 3], calls := [Call_Write [1, 2, 3]]\<rparr>)"
  by (simp add: NewRespWriter_def Background_ctx_def rw_conn_def getGeneralOpts_def
      generalDefaults_def Write_def call_Done_Some ctx_Done_def ctx_ended_def
      call_Write_def receiver_Some connWriter_def reach_def world0_def)

subsection \<open>Construction\<close>

text \<open>
  C3. \<^verbatim>\<open>NewHandlerFunc\<close> called with a timeout that is zero or negative, or with a nil
  handler, returns no handler and an error that wraps \<^verbatim>\<open>ErrInvalidParameter\<close>. The
  result is that of the call to \<^verbatim>\<open>NewHandlerFunc\<close> itself, which takes no request and
  no world: both checks are made when the handler is built.
\<close>

theorem NewHandlerFunc_invalid_parameter:
  assumes "requestTimeout \<le> 0 \<or> h = None"
  shows "fst (NewHandlerFunc requestTimeout h opt) = None
       \<and> (\<exists>e. snd (NewHandlerFunc requestTimeout h opt) = Some e
              \<and> errors_Is e ErrInvalidParameter)"
  using assms by (auto simp add: NewHandlerFunc_def)

theorem NewHandlerFunc_invalid_parameter_witness:
  "((0::int) \<le> 0 \<or> Some (sleepy_handler 0 :: unit wrapped_handler) = None)
   \<and> fst (NewHandlerFunc 0 (Some (sleepy_handler 0 :: unit wrapped_handler)) []) = None
   \<and> snd (NewHandlerFunc 0 (Some (sleepy_handler 0 :: unit wrapped_handler)) [])
       = Some (Errorf ''handlers.NewRespWriterHandler: invalid request timeout: ''
                 ErrInvalidParameter)
   \<and> fst (NewHandlerFunc 100 (None :: unit wrapped_handler option) []) = None
   \<and> snd (NewHandlerFunc 100 (None :: unit wrapped_handler option) [])
       = Some (Errorf ''handlers.NewRespWriterHandler: nil handler: '' ErrInvalidParameter)"
  using NewHandlerFunc_invalid_parameter [of 0 "Some (sleepy_handler 0 :: unit wrapped_handler)" "[]"]
    NewHandlerFunc_invalid_parameter [of 100 "None :: unit wrapped_handler option" "[]"]
  by (simp add: NewHandlerFunc_def op_name_def)

text \<open>
  C4. \<^verbatim>\<open>NewRespWriter\<close> panics when the context or the writer is nil, with
  \<^verbatim>\<open>"nil context"\<close> for the context, checked first, and \<^verbatim>\<open>"nil dns.ResponseWriter"\<close>
  for the writer, and then returns nothing. When neither is nil it returns a pointer
  that is not nil, to a struct that holds that context and that writer.
\<close>

theorem NewRespWriter_panics_or_stores:
  "(isNil ctx \<or> isNil w \<longrightarrow> (\<exists>p. NewRespWriter ctx w opt = Inl p))
   \<and> NewRespWriter NilInterface w opt = Inl (Panic ''nil context'')
   \<and> (\<not> isNil ctx \<longrightarrow> NewRespWriter ctx NilInterface opt = Inl (Panic ''nil dns.ResponseWriter''))
   \<and> (\<not> isNil ctx \<and> \<not> isNil w \<longrightarrow>
        (\<exists>r. NewRespWriter ctx w opt = Inr (Some r) \<and> requestCtx r = ctx \<and> underlying r = w
             \<and> RequestContext (Some r) = Inr ctx \<and> Underlying (Some r) = Inr w))"
  by (simp add: NewRespWriter_def RequestContext_def Underlying_def)

theorem NewRespWriter_panics_or_stores_witness:
  "isNil (NilInterface :: ctx_val go_any)
   \<and> NewRespWriter NilInterface (Iface reflect_Ptr (Some (mockDNSResponseWriter :: unit ResponseWriter))) []
       = Inl (Panic ''nil context'')
   \<and> \<not> isNil Background_ctx
   \<and> NewRespWriter Background_ctx (NilInterface :: unit ResponseWriter go_any) []
       = Inl (Panic ''nil dns.ResponseWriter'')
   \<and> \<not> isNil (Iface reflect_Ptr (Some (mockDNSResponseWriter :: unit ResponseWriter)))
   \<and> NewRespWriter Background_ctx (Iface reflect_Ptr (Some (mockDNSResponseWriter :: unit ResponseWriter))) []
       = Inr (Some \<lparr>underlying = Iface reflect_Ptr (Some mockDNSResponseWriter),
                    requestCtx = Background_ctx, logger = None\<rparr>)"
  using NewRespWriter_panics_or_stores [of "NilInterface" "Iface reflect_Ptr (Some (mockDNSResponseWriter :: unit ResponseWriter))" "[]"]
    NewRespWriter_panics_or_stores [of Background_ctx "NilInterface :: unit ResponseWriter go_any" "[]"]
    NewRespWriter_panics_or_stores [of Background_ctx "Iface reflect_Ptr (Some (mockDNSResponseWriter :: unit ResponseWriter))" "[]"]
  by (simp add: Background_ctx_def NewRespWriter_def getGeneralOpts_def generalDefaults_def)

text \<open>
  C10. The nil check reads the dynamic value by reflection. A nil function or a nil
  pointer in an interface is not the nil interface, and \<^verbatim>\<open>isNil\<close> is true of it all the
  same. So \<^verbatim>\<open>NewHandlerFunc\<close> returns no handler and, the timeout being positive, the
  "nil handler" error that wraps \<^verbatim>\<open>ErrInvalidParameter\<close>, for the nil function; and
  \<^verbatim>\<open>NewRespWriter\<close> panics for a context or a writer that holds a nil pointer, with the
  panic it raises for the nil interface.
\<close>

theorem typed_nil_is_nil:
  fixes w :: "'ws ResponseWriter go_any"
  shows "(Iface reflect_Func None :: 'a go_any) \<noteq> NilInterface
   \<and> isNil (Iface reflect_Func (None :: 'a option))
   \<and> isNil (Iface reflect_Ptr (None :: 'b option))
   \<and> isNil (Iface k (None :: 'b option))
       = (k = reflect_Ptr \<or> k = reflect_Map \<or> k = reflect_Chan \<or> k = reflect_Slice
          \<or> k = reflect_Func)
   \<and> fst (NewHandlerFunc requestTimeout (None :: 'ws wrapped_handler option) opt) = None
   \<and> (0 < requestTimeout \<longrightarrow>
        snd (NewHandlerFunc requestTimeout (None :: 'ws wrapped_handler option) opt)
          = Some (Errorf (op_name @ '': nil handler: '') ErrInvalidParameter))
   \<and> NewRespWriter (Iface reflect_Ptr None) w opt = Inl (Panic ''nil context'')
   \<and> NewRespWriter (Iface reflect_Ptr None) w opt = NewRespWriter NilInterface w opt
   \<and> (\<not> isNil ctx \<longrightarrow>
        NewRespWriter ctx (Iface reflect_Ptr None :: 'ws ResponseWriter go_any) opt
          = Inl (Panic ''nil dns.ResponseWriter'')
        \<and> NewRespWriter ctx (Iface reflect_Ptr None :: 'ws ResponseWriter go_any) opt
          = NewRespWriter ctx NilInterface opt)"
  by (simp add: NewHandlerFunc_def NewRespWriter_def)

theorem typed_nil_is_nil_witness:
  "0 < (100::int)
   \<and> snd (NewHandlerFunc 100 (None :: unit wrapped_handler option) [])
          = Some (Errorf ''handlers.NewRespWriterHandler: nil handler: '' ErrInvalidParameter)
   \<and> \<not> isNil Background_ctx
   \<and> NewRespWriter Background_ctx (Iface reflect_Ptr None :: unit ResponseWriter go_any) []
       = Inl (Panic ''nil dns.ResponseWriter'')"
  using typed_nil_is_nil [where requestTimeout=100 and opt="[]" and ctx=Background_ctx
      and w="NilInterface :: unit ResponseWriter go_any" and k=reflect_Ptr]
  by (simp add: Background_ctx_def op_name_def)

subsection \<open>What the methods change\<close>

lemma method_call_step:
  assumes "requestCtx r = Iface k (Some c)" and "underlying r = Iface k' (Some u)"
  shows "\<exists>res wd'. method_call x r wd
           = Inr (res, (case x of Op_SetLogger l \<Rightarrow> r\<lparr>logger := l\<rparr> | _ \<Rightarrow> r), wd')"
proof (cases x)
  case (Op_WriteMsg msg)
  then show ?thesis using assms
    by (cases "ctx_Done c wd")
      (simp_all add: WriteMsg_def call_Done_Some call_Err_Some call_WriteMsg_def receiver_Some
        split: prod.split)
next
  case (Op_Write b)
  then show ?thesis using assms
    by (cases "ctx_Done c wd")
      (simp_all add: Write_def call_Done_Some call_Err_Some call_Write_def receiver_Some
        split: prod.split)
next
  case Op_RemoteAddr
  then show ?thesis using assms
    by (simp add: RemoteAddr_def call_RemoteAddr_def receiver_Some split: prod.split)
next
  case Op_LocalAddr
  then show ?thesis using assms
    by (simp add: LocalAddr_def call_LocalAddr_def receiver_Some split: prod.split)
next
  case Op_TsigStatus
  then show ?thesis using assms
    by (cases "ctx_Done c wd")
      (simp_all add: TsigStatus_def call_Done_Some call_Err_Some call_TsigStatus_def
        receiver_Some split: prod.split)
next
  case (Op_TsigTimersOnly b)
  then show ?thesis using assms
    by (simp add: TsigTimersOnly_def call_TsigTimersOnly_def receiver_Some)
next
  case Op_Hijack
  then show ?thesis using assms
    by (simp add: Hijack_def call_Hijack_def receiver_Some)
next
  case Op_Close
  then show ?thesis using assms
    by (simp add: Close_def call_Close_def receiver_Some split: prod.split)
next
  case Op_Underlying
  then show ?thesis by (simp add: Underlying_def)
next
  case Op_RequestContext
  then show ?thesis by (simp add: RequestContext_def)
next
  case Op_Logger
  then show ?thesis by (simp add: Logger_def)
next
  case (Op_SetLogger l)
  then show ?thesis by (simp add: SetLogger_def)
qed

lemma method_call_struct:
  assumes "method_call x r wd = Inr (res, r1, wd1)"
  shows "r1 = (case x of Op_SetLogger l \<Rightarrow> r\<lparr>logger := l\<rparr> | _ \<Rightarrow> r)"
  using assms
  by (cases x) (auto simp add: SetLogger_def Underlying_def RequestContext_def Logger_def
      split: sum.splits prod.splits)

lemma method_calls_frame:
  assumes "requestCtx r = Iface k (Some c)" and "underlying r = Iface k' (Some u)"
  shows "\<exists>rs wd'. method_calls xs r wd
           = Inr (rs, r\<lparr>logger := last_SetLogger xs (logger r)\<rparr>, wd')"
  using assms
proof (induction xs arbitrary: r wd)
  case Nil
  then show ?case by simp
next
  case (Cons x xs)
  let ?r1 = "case x of Op_SetLogger l \<Rightarrow> r\<lparr>logger := l\<rparr> | _ \<Rightarrow> r"
  from method_call_step [OF Cons.prems, of x wd]
  obtain res wd1 where step: "method_call x r wd = Inr (res, ?r1, wd1)" by blast
  have ctx1: "requestCtx ?r1 = Iface k (Some c)" and und1: "underlying ?r1 = Iface k' (Some u)"
    using Cons.prems by (cases x; simp)+
  from Cons.IH [OF ctx1 und1, of wd1]
  obtain rs wd' where rest: "method_calls xs ?r1 wd1
      = Inr (rs, ?r1\<lparr>logger := last_SetLogger xs (logger ?r1)\<rparr>, wd')" by blast
  have same: "?r1\<lparr>logger := last_SetLogger xs (logger ?r1)\<rparr>
      = r\<lparr>logger := last_SetLogger (x # xs) (logger r)\<rparr>"
    by (cases x) simp_all
  from step rest same show ?case by simp
qed

text \<open>
  C9. Take a writer that \<^verbatim>\<open>NewRespWriter\<close> returned for a context and a wrapped writer.
  Any run of its methods returns, and after it the struct holds the same wrapped writer
  and the same context, which \<^verbatim>\<open>Underlying()\<close> and \<^verbatim>\<open>RequestContext()\<close> return; its
  logger is the argument of the last \<^verbatim>\<open>SetLogger\<close> of the run, or the logger it had
  when there was none, and \<^verbatim>\<open>Logger()\<close> returns it. A single method call leaves the
  struct as it was, except \<^verbatim>\<open>SetLogger(l)\<close>, after which only the logger differs and is
  \<open>l\<close>.
\<close>

theorem only_SetLogger_changes_the_writer:
  assumes "NewRespWriter ctx w opt = Inr (Some r)"
    and "ctx = Iface k (Some c)" and "w = Iface k' (Some u)"
  shows "(\<exists>rs r' wd'. method_calls xs r wd = Inr (rs, r', wd')
            \<and> underlying r' = w \<and> requestCtx r' = ctx
            \<and> logger r' = last_SetLogger xs (logger r)
            \<and> Underlying (Some r') = Inr w
            \<and> RequestContext (Some r') = Inr ctx
            \<and> Logger (Some r') = Inr (last_SetLogger xs (logger r)))
       \<and> (\<forall>x r0 wd0 res r1 wd1. method_call x r0 wd0 = Inr (res, r1, wd1) \<longrightarrow>
            r1 = (case x of Op_SetLogger l \<Rightarrow> r0\<lparr>logger := l\<rparr> | _ \<Rightarrow> r0))
       \<and> (\<forall>r0 l. SetLogger (Some r0) l = Inr (r0\<lparr>logger := l\<rparr>)
            \<and> Logger (Some (r0\<lparr>logger := l\<rparr>)) = Inr l)"
proof -
  from assms have ctx: "requestCtx r = Iface k (Some c)" and und: "underlying r = Iface k' (Some u)"
    by (auto simp add: NewRespWriter_def split: if_splits)
  from method_calls_frame [OF ctx und, of xs wd]
  obtain rs wd' where run: "method_calls xs r wd
      = Inr (rs, r\<lparr>logger := last_SetLogger xs (logger r)\<rparr>, wd')" by blast
  have first: "\<exists>rs r' wd'. method_calls xs r wd = Inr (rs, r', wd')
            \<and> underlying r' = w \<and> requestCtx r' = ctx
            \<and> logger r' = last_SetLogger xs (logger r)
            \<and> Underlying (Some r') = Inr w
            \<and> RequestContext (Some r') = Inr ctx
            \<and> Logger (Some r') = Inr (last_SetLogger xs (logger r))"
    using run ctx und assms(2,3)
    by (simp add: Underlying_def RequestContext_def Logger_def)
  have second: "\<forall>x r0 wd0 res r1 wd1. method_call x r0 wd0 = Inr (res, r1, wd1) \<longrightarrow>
            r1 = (case x of Op_SetLogger l \<Rightarrow> r0\<lparr>logger := l\<rparr> | _ \<Rightarrow> r0)"
    using method_call_struct by blast
  have third: "\<forall>r0 l. SetLogger (Some r0) l = Inr (r0\<lparr>logger := l\<rparr>)
            \<and> Logger (Some (r0\<lparr>logger := l\<rparr>)) = Inr l"
    by (simp add: SetLogger_def Logger_def)
  from first second third show ?thesis by blast
qed

theorem only_SetLogger_changes_the_writer_witness:
  "NewRespWriter Background_ctx (Iface reflect_Ptr (Some mockDNSResponseWriter))
       [WithLogger (Some (LoggerAt 1))] = Inr (Some rw_bg)
   \<and> Background_ctx = Iface reflect_Struct (Some Background)
   \<and> (\<exists>rs r' wd'. method_calls ops0 rw_bg (world0 ()) = Inr (rs, r', wd')
         \<and> underlying r' = Iface reflect_Ptr (Some mockDNSResponseWriter)
         \<and> requestCtx r' = Background_ctx
         \<and> Logger (Some r') = Inr (Some (LoggerAt 3)))"
proof -
  have new: "NewRespWriter Background_ctx (Iface reflect_Ptr (Some mockDNSResponseWriter))
       [WithLogger (Some (LoggerAt 1))] = Inr (Some rw_bg)"
    by (simp add: NewRespWriter_def Background_ctx_def rw_bg_def getGeneralOpts_def
        generalDefaults_def WithLogger_def)
  have bg: "Background_ctx = Iface reflect_Struct (Some Background)"
    by (simp add: Background_ctx_def)
  have last: "last_SetLogger ops0 (logger rw_bg) = Some (LoggerAt 3)"
    by (simp add: ops0_def)
  from only_SetLogger_changes_the_writer [OF new bg refl, of ops0 "world0 ()"] new bg last
  show ?thesis by auto
qed

subsection \<open>The handler that NewHandlerFunc returns\<close>

lemma cancel_ends: "\<exists>e. ctx_ended (CtxRef i) (cancel i wd) = Some e"
  by (simp add: cancel_def ctx_ended_def split: option.split)

lemma run_slow:
  "NewHandlerFunc_closure 100 (Some (sleepy_handler 200)) [] mock_iface (Some (Msg 7)) (world0 ())
     = (None, \<lparr>clock = 200,
               contexts = (\<lambda>i. \<lparr>deadline = None, ended = None\<rparr>)
                 (0 := \<lparr>deadline = Some 100, ended = Some ByDeadline\<rparr>),
               next_ctx = 1, transport = (), calls = []\<rparr>)"
  by (simp add: NewHandlerFunc_closure_def WithTimeout_Background_def world0_def
      NewRespWriter_def getGeneralOpts_def generalDefaults_def sleepy_handler_def sleep_def
      WriteMsg_def call_Done_Some call_Err_Some ctx_Done_def ctx_Err_def ctx_ended_def
      cancel_def mock_iface_def)

lemma run_fast:
  "NewHandlerFunc_closure 100 (Some (sleepy_handler 0)) [] mock_iface (Some (Msg 7)) (world0 ())
     = (None, \<lparr>clock = 0,
               contexts = (\<lambda>i. \<lparr>deadline = None, ended = None\<rparr>)
                 (0 := \<lparr>deadline = Some 100, ended = Some ByCancel\<rparr>),
               next_ctx = 1, transport = (), calls = [Call_WriteMsg (Some (Msg 7))]\<rparr>)"
  by (simp add: NewHandlerFunc_closure_def WithTimeout_Background_def world0_def
      NewRespWriter_def getGeneralOpts_def generalDefaults_def sleepy_handler_def sleep_def
      WriteMsg_def call_Done_Some call_Err_Some ctx_Done_def ctx_Err_def ctx_ended_def
      cancel_def mock_iface_def call_WriteMsg_def receiver_Some mockDNSResponseWriter_def
      reach_def)

text \<open>
  C7. For a positive timeout and a handler that is not nil, \<^verbatim>\<open>NewHandlerFunc\<close> returns
  its function literal and no error. Each call of that function on a writer \<open>w\<close>, a
  request \<open>r\<close> and a world makes a new context: a context object that did not exist
  before, made from the background context and from nothing the caller holds, live, with
  the deadline of the clock plus the timeout. It builds the RespWriter with
  \<^verbatim>\<open>NewRespWriter\<close> from that context, \<open>w\<close> and the options, and calls the wrapped
  handler with a pointer to it in place of \<open>w\<close>, and with \<open>r\<close>. The cancellation of the
  context runs on the world the handler leaves, and also when \<^verbatim>\<open>NewRespWriter\<close> has
  panicked: in every case the context has ended once the call is over.
\<close>

theorem adapter_serves_each_request:
  assumes "0 < requestTimeout" and "h = Some hf"
  shows "NewHandlerFunc requestTimeout h opt
           = (Some (NewHandlerFunc_closure requestTimeout h opt), None)
       \<and> (case WithTimeout_Background requestTimeout wd of
             (ctx, i, wd1) \<Rightarrow>
               ctx = Iface reflect_Ptr (Some (CtxRef i))
               \<and> i = next_ctx wd
               \<and> deadline (contexts wd1 i) = Some (clock wd + requestTimeout)
               \<and> ctx_ended (CtxRef i) wd1 = None
               \<and> (case NewRespWriter ctx w opt of
                    Inl p \<Rightarrow>
                      NewHandlerFunc_closure requestTimeout h opt w r wd
                        = (Some p, cancel i wd1)
                  | Inr rw \<Rightarrow>
                      rw = Some \<lparr>underlying = w, requestCtx = ctx,
                                 logger = withLogger (getGeneralOpts opt)\<rparr>
                      \<and> NewHandlerFunc_closure requestTimeout h opt w r wd
                          = (fst (hf (Iface reflect_Ptr rw) r wd1),
                             cancel i (snd (hf (Iface reflect_Ptr rw) r wd1))))
               \<and> ctx_Done (CtxRef i)
                    (snd (NewHandlerFunc_closure requestTimeout h opt w r wd)))"
proof -
  have made: "NewHandlerFunc requestTimeout h opt
           = (Some (NewHandlerFunc_closure requestTimeout h opt), None)"
    using assms by (simp add: NewHandlerFunc_def)
  obtain ctx i wd1 where wt: "WithTimeout_Background requestTimeout wd = (ctx, i, wd1)"
    by (cases "WithTimeout_Background requestTimeout wd") blast
  then have ctx: "ctx = Iface reflect_Ptr (Some (CtxRef i))" and i: "i = next_ctx wd"
    and wd1: "wd1 = wd\<lparr>contexts := (contexts wd)
         (next_ctx wd := \<lparr>deadline = Some (clock wd + requestTimeout), ended = None\<rparr>),
       next_ctx := Suc (next_ctx wd)\<rparr>"
    by (auto simp add: WithTimeout_Background_def)
  have dl: "deadline (contexts wd1 i) = Some (clock wd + requestTimeout)"
    using i wd1 by simp
  have live: "ctx_ended (CtxRef i) wd1 = None"
    using i wd1 assms(1) by (simp add: ctx_ended_def)
  have body: "case NewRespWriter ctx w opt of
                Inl p \<Rightarrow>
                  NewHandlerFunc_closure requestTimeout h opt w r wd = (Some p, cancel i wd1)
              | Inr rw \<Rightarrow>
                  rw = Some \<lparr>underlying = w, requestCtx = ctx,
                             logger = withLogger (getGeneralOpts opt)\<rparr>
                  \<and> NewHandlerFunc_closure requestTimeout h opt w r wd
                      = (fst (hf (Iface reflect_Ptr rw) r wd1),
                         cancel i (snd (hf (Iface reflect_Ptr rw) r wd1)))"
    using wt assms(2)
    by (auto simp add: NewHandlerFunc_closure_def NewRespWriter_def Let_def
        split: sum.split prod.split if_splits)
  have ends: "ctx_Done (CtxRef i) (snd (NewHandlerFunc_closure requestTimeout h opt w r wd))"
    using wt assms(2)
    by (simp add: NewHandlerFunc_closure_def ctx_Done_def cancel_ends
        split: sum.split prod.split)
  show ?thesis
    unfolding wt prod.case using made ctx i dl live body ends by blast
qed

theorem adapter_serves_each_request_witness:
  "0 < (100::int)
   \<and> NewHandlerFunc 100 (Some (sleepy_handler 200 :: unit wrapped_handler)) []
       = (Some (NewHandlerFunc_closure 100 (Some (sleepy_handler 200)) []), None)
   \<and> ctx_Done (CtxRef 0)
        (snd (NewHandlerFunc_closure 100 (Some (sleepy_handler 200)) [] mock_iface
                (Some (Msg 7)) (world0 ())))
   \<and> calls (snd (NewHandlerFunc_closure 100 (Some (sleepy_handler 200)) [] mock_iface
                (Some (Msg 7)) (world0 ()))) = []
   \<and> calls (snd (NewHandlerFunc_closure 100 (Some (sleepy_handler 0)) [] mock_iface
                (Some (Msg 7)) (world0 ()))) = [Call_WriteMsg (Some (Msg 7))]"
proof -
  have pos: "0 < (100::int)" by simp
  note slow = adapter_serves_each_request [OF pos refl, where hf="sleepy_handler 200 :: unit wrapped_handler"
      and opt="[]" and w=mock_iface and r="Some (Msg 7)" and wd="world0 ()"]
  from slow have made: "NewHandlerFunc 100 (Some (sleepy_handler 200 :: unit wrapped_handler)) []
       = (Some (NewHandlerFunc_closure 100 (Some (sleepy_handler 200)) []), None)"
    by (rule conjunct1)
  from slow [THEN conjunct2]
  have ended: "ctx_Done (CtxRef 0)
        (snd (NewHandlerFunc_closure 100 (Some (sleepy_handler 200)) [] mock_iface
                (Some (Msg 7)) (world0 ())))"
    by (simp add: WithTimeout_Background_def world0_def)
  from pos made ended show ?thesis
    by (simp add: run_slow run_fast)
qed

end
